theory Spec2Isabelle
  imports Complex_Main "HOL-Library.Sublist" "HOL-Library.Multiset"
begin

section \<open>JavaScript numbers\<close>

text \<open>
  The services compute with JavaScript numbers. A number is modelled as an exact rational
  or as \<open>NaN\<close>; the rounding error of IEEE doubles is left out, so \<open>+\<close>, \<open>-\<close> and \<open>*\<close>
  are the exact operations, and \<open>NaN\<close> is absorbing as in JavaScript. A missing
  (\<open>undefined\<close>) numeric field behaves as \<open>NaN\<close> in every arithmetic expression of the
  modelled code. Where a double falls just below a half that the exact value reaches
  (23 of 40 is 57.49999999999999 per cent in doubles), \<open>Math.round\<close> of the double is one
  less than the rounding of the exact value; the model follows the exact value. The
  infinities are not represented: the only divisions of the code whose
  divisor can be zero are divisions of array lengths and counters, and those are modelled
  on \<open>nat\<close> with the zero divisor written out.
\<close>

datatype number = Num rat | NaN

instantiation number :: "{comm_monoid_add, minus, times}"
begin

fun plus_number :: "number \<Rightarrow> number \<Rightarrow> number" where
  "plus_number (Num a) (Num b) = Num (a + b)"
| "plus_number _ _ = NaN"

fun minus_number :: "number \<Rightarrow> number \<Rightarrow> number" where
  "minus_number (Num a) (Num b) = Num (a - b)"
| "minus_number _ _ = NaN"

fun times_number :: "number \<Rightarrow> number \<Rightarrow> number" where
  "times_number (Num a) (Num b) = Num (a * b)"
| "times_number _ _ = NaN"

definition zero_number :: number where
  "zero_number = Num 0"

instance
proof (standard, goal_cases)
  case (1 x y z)
  show ?case by (cases x; cases y; cases z) simp_all
next
  case (2 x y)
  show ?case by (cases x; cases y) simp_all
next
  case (3 x)
  show ?case by (cases x) (simp_all add: zero_number_def)
qed

end

text \<open>The comparisons \<open><\<close>, \<open><=\<close>, \<open>>\<close>, \<open>>=\<close>: false as soon as one side is \<open>NaN\<close>.\<close>

fun num_lt :: "number \<Rightarrow> number \<Rightarrow> bool" where
  "num_lt (Num a) (Num b) = (a < b)"
| "num_lt _ _ = False"

fun num_le :: "number \<Rightarrow> number \<Rightarrow> bool" where
  "num_le (Num a) (Num b) = (a \<le> b)"
| "num_le _ _ = False"

definition num_gt :: "number \<Rightarrow> number \<Rightarrow> bool" where
  "num_gt a b = num_lt b a"

definition num_ge :: "number \<Rightarrow> number \<Rightarrow> bool" where
  "num_ge a b = num_le b a"

text \<open>
  \<open>Math.round\<close> rounds to the nearest integer, a tie towards plus infinity: this is
  \<^const>\<open>round\<close>, which is \<open>\<lfloor>x + 1/2\<rfloor>\<close>. \<open>Math.ceil\<close> is \<^const>\<open>ceiling\<close>.
\<close>

fun Math_round :: "number \<Rightarrow> number" where
  "Math_round (Num x) = Num (of_int (round x))"
| "Math_round NaN = NaN"


text \<open>
  \<open>parseFloat(x.toFixed(2))\<close>: \<open>toFixed\<close> takes the integer \<open>n\<close> with \<open>n / 100\<close> nearest to
  \<open>|x|\<close>, the larger one on a tie, and puts the sign back; \<open>NaN\<close> prints as \<open>"NaN"\<close> and
  parses back to \<open>NaN\<close>. (From \<open>10^21\<close> on \<open>toFixed\<close> prints the number itself; a double of
  that size is an integer, which the rounding leaves as it is.)
\<close>

definition round2 :: "rat \<Rightarrow> rat" where
  "round2 x = (if x < 0 then - (of_int (round (- x * 100)) / 100)
               else of_int (round (x * 100)) / 100)"

fun toFixed2 :: "number \<Rightarrow> number" where
  "toFixed2 (Num x) = Num (round2 x)"
| "toFixed2 NaN = NaN"

section \<open>Strings\<close>

text \<open>
  Strings are lists of characters; \<open>toLowerCase\<close> is modelled on the ASCII letters, and
  \<open>s.includes(k)\<close> is the test for a contiguous substring.
\<close>

definition lowerChar :: "char \<Rightarrow> char" where
  "lowerChar c = (if (65::nat) \<le> of_char c \<and> (of_char c :: nat) \<le> 90
                  then char_of ((of_char c :: nat) + 32) else c)"

definition toLowerCase :: "string \<Rightarrow> string" where
  "toLowerCase s = map lowerChar s"

fun includes_str :: "string \<Rightarrow> string \<Rightarrow> bool" where
  "includes_str [] k = (k = [])"
| "includes_str (c # cs) k = (prefix k (c # cs) \<or> includes_str cs k)"

section \<open>Data model\<close>

text \<open>
  History entries and inventory items are plain JavaScript objects. One record carries
  every field the two services read. \<open>name\<close> and \<open>item\<close> are strings, the empty string
  standing for an absent field where the code writes \<open>item.name || item.item\<close> (an absent
  and an empty field take the same branch there); \<open>status\<close> is compared with \<open>===\<close> only.
  \<open>expiry\<close> is the time value, in milliseconds, of \<open>new Date(item.expiry)\<close>: \<open>NaN\<close> for an
  unparsable date (an Invalid Date). \<open>price\<close> and \<open>quantity\<close> are numbers, \<open>NaN\<close> when
  the field is missing.
\<close>

record Item =
  name :: string
  item :: string
  price :: number
  quantity :: number
  status :: string
  expiry :: number
  daysLeft :: int

type_synonym LogEntry = Item



record SDGMetrics =
  sdgScore :: int
  successRate :: int
  wastedCount :: nat
  consumedCount :: nat
  totalItems :: nat

section \<open>analyticsService: waste and risk\<close>

text \<open>\<open>item.name || item.item\<close>\<close>

definition nameOrItem :: "Item \<Rightarrow> string" where
  "nameOrItem x = (if name x \<noteq> [] then name x else item x)"




section \<open>analyticsService: SDG score\<close>

text \<open>
  \<open>calculateSDGScore(history)\<close>; \<open>None\<close> is a missing (\<open>undefined\<close> or \<open>null\<close>) history,
  which the guard \<open>!history || history.length === 0\<close> accepts.
\<close>

definition calculateSDGScore :: "LogEntry list option \<Rightarrow> SDGMetrics" where
  "calculateSDGScore h =
     (case h of
        None \<Rightarrow> \<lparr>sdgScore = 50, successRate = 0, wastedCount = 0, consumedCount = 0, totalItems = 0\<rparr>
      | Some history \<Rightarrow>
          if length history = 0
          then \<lparr>sdgScore = 50, successRate = 0, wastedCount = 0, consumedCount = 0, totalItems = 0\<rparr>
          else
            (let wastedCount = length (filter (\<lambda>x. status x = ''wasted'') history);
                 consumedCount = length (filter (\<lambda>x. status x = ''consumed'') history);
                 totalItems = length history;
                 successRate = round ((of_nat consumedCount / of_nat totalItems) * (100::rat));
                 sdgScore = successRate
             in \<lparr>sdgScore = sdgScore, successRate = successRate, wastedCount = wastedCount,
                 consumedCount = consumedCount, totalItems = totalItems\<rparr>))"

section \<open>analyticsService: nutrition score\<close>

record Categories =
  fruits :: nat
  vegetables :: nat
  proteins :: nat
  grains :: nat
  dairy :: nat

record NutritionMetrics =
  nutritionScore :: number
  categories :: Categories
  totalConsumed :: nat
  suggestions :: "string list"

definition fruitKeywords :: "string list" where
  "fruitKeywords = [''apple'', ''orange'', ''banana'', ''berries'', ''mango'', ''grape'']"

definition vegKeywords :: "string list" where
  "vegKeywords = [''carrot'', ''lettuce'', ''broccoli'', ''spinach'', ''tomato'', ''cucumber'']"

definition proteinKeywords :: "string list" where
  "proteinKeywords = [''egg'', ''chicken'', ''fish'', ''meat'', ''tofu'', ''bean'', ''lentil'']"

definition grainKeywords :: "string list" where
  "grainKeywords = [''bread'', ''rice'', ''wheat'', ''oat'', ''pasta'', ''cereal'']"

definition dairyKeywords :: "string list" where
  "dairyKeywords = [''milk'', ''cheese'', ''yogurt'', ''butter'']"

text \<open>\<open>keywords.some((k) => itemName.includes(k))\<close>\<close>

definition someKeyword :: "string list \<Rightarrow> string \<Rightarrow> bool" where
  "someKeyword keywords itemName = list_ex (\<lambda>k. includes_str itemName k) keywords"

text \<open>
  The body of the loop over the consumed items: the \<open>if\<close>/\<open>else if\<close> chain that
  increments one counter, or none. \<open>(item.name || item.item || "")\<close> is \<^const>\<open>nameOrItem\<close>,
  the empty string standing for an absent field.
\<close>

definition categorize :: "Categories \<Rightarrow> Item \<Rightarrow> Categories" where
  "categorize cs x =
     (let itemName = toLowerCase (nameOrItem x) in
      if someKeyword fruitKeywords itemName then cs\<lparr>fruits := fruits cs + 1\<rparr>
      else if someKeyword vegKeywords itemName then cs\<lparr>vegetables := vegetables cs + 1\<rparr>
      else if someKeyword proteinKeywords itemName then cs\<lparr>proteins := proteins cs + 1\<rparr>
      else if someKeyword grainKeywords itemName then cs\<lparr>grains := grains cs + 1\<rparr>
      else if someKeyword dairyKeywords itemName then cs\<lparr>dairy := dairy cs + 1\<rparr>
      else cs)"

text \<open>
  \<open>Math.min((count / maxPerCategory) * 100, 100)\<close> on two counters. With
  \<open>maxPerCategory = 0\<close> the quotient is \<open>0 / 0 = NaN\<close> for a zero count, and \<open>Math.min\<close>
  gives \<open>NaN\<close>; for a positive count it is \<open>Infinity\<close>, and \<open>Math.min\<close> gives 100.
\<close>

definition categoryScore :: "nat \<Rightarrow> nat \<Rightarrow> number" where
  "categoryScore cnt maxPerCategory =
     (if maxPerCategory = 0 then (if cnt = 0 then NaN else Num 100)
      else Num (min ((of_nat cnt / of_nat maxPerCategory) * 100) 100))"

text \<open>\<open>x / c\<close> for a constant \<open>c\<close> other than zero.\<close>

fun num_div_const :: "number \<Rightarrow> rat \<Rightarrow> number" where
  "num_div_const (Num a) c = Num (a / c)"
| "num_div_const NaN c = NaN"

definition calculateNutritionScore :: "LogEntry list option \<Rightarrow> NutritionMetrics" where
  "calculateNutritionScore h =
     (case h of
        None \<Rightarrow>
          \<lparr>nutritionScore = Num 50,
           categories = \<lparr>fruits = 0, vegetables = 0, proteins = 0, grains = 0, dairy = 0\<rparr>,
           totalConsumed = 0,
           suggestions = [''Add more vegetables'', ''Include proteins'', ''Eat whole grains'']\<rparr>
      | Some history \<Rightarrow>
      if length history = 0
      then \<lparr>nutritionScore = Num 50,
            categories = \<lparr>fruits = 0, vegetables = 0, proteins = 0, grains = 0, dairy = 0\<rparr>,
            totalConsumed = 0,
            suggestions = [''Add more vegetables'', ''Include proteins'', ''Eat whole grains'']\<rparr>
      else
        (let consumedItems = filter (\<lambda>x. status x = ''consumed'') history;
             categories = foldl categorize
                \<lparr>fruits = 0, vegetables = 0, proteins = 0, grains = 0, dairy = 0\<rparr> consumedItems;
             maxPerCategory = nat \<lceil>of_nat (length consumedItems) / (5::rat)\<rceil>;
             nutritionScore = Math_round
               (foldl (\<lambda>score cnt. score + num_div_const (categoryScore cnt maxPerCategory) 5)
                  (Num 0)
                  [fruits categories, vegetables categories, proteins categories,
                   grains categories, dairy categories]);
             s0 = [];
             s1 = (if of_nat (vegetables categories) < of_nat maxPerCategory / (2::rat)
                   then s0 @ [''Boost vegetables to 25% of meals''] else s0);
             s2 = (if of_nat (fruits categories) < of_nat maxPerCategory / (2::rat)
                   then s1 @ [''Add more fruits for vitamins''] else s1);
             s3 = (if of_nat (proteins categories) < of_nat maxPerCategory / (2::rat)
                   then s2 @ [''Include proteins in every meal''] else s2);
             s4 = (if of_nat (grains categories) < of_nat maxPerCategory / (2::rat)
                   then s3 @ [''Choose whole grains''] else s3);
             s5 = (if of_nat (dairy categories) < of_nat maxPerCategory / (3::rat)
                   then s4 @ [''Add dairy for calcium''] else s4)
         in \<lparr>nutritionScore = nutritionScore,
             categories = categories,
             totalConsumed = length consumedItems,
             suggestions = (if length s5 > 0 then s5 else [''Great variety! Keep it up!''])\<rparr>))"




section \<open>analyticsService: weekly insights\<close>

text \<open>
  An insight is one of six template strings with a number spliced in; the constructor
  names the template and carries the number.
\<close>

datatype Insight =
    ScoreImproved int
  | ScoreDropped int
  | ScoreStable
  | WastedFewer int
  | WastedMore int
  | ConsumedMore int

record WeeklyInsights =
  weeklyChange :: int
  wasteReduction :: int
  insights :: "Insight list"
  previousScore :: int
  currentScore :: int

definition generateWeeklyInsights :: "LogEntry list \<Rightarrow> SDGMetrics \<Rightarrow> WeeklyInsights" where
  "generateWeeklyInsights history currentMetrics =
     (let twoWeeksAgo = take (nat \<lceil>of_nat (length history) / (2::rat)\<rceil>) history;
          prevMetrics = calculateSDGScore (Some twoWeeksAgo);
          scoreImprovement = sdgScore currentMetrics - sdgScore prevMetrics;
          prevWasted = length (filter (\<lambda>x. status x = ''wasted'') twoWeeksAgo);
          wasteReduction = int prevWasted - int (wastedCount currentMetrics);
          i0 = [];
          i1 = (if scoreImprovement > 0 then i0 @ [ScoreImproved scoreImprovement]
                else if scoreImprovement < 0 then i0 @ [ScoreDropped \<bar>scoreImprovement\<bar>]
                else i0 @ [ScoreStable]);
          i2 = (if wasteReduction > 0 then i1 @ [WastedFewer wasteReduction]
                else if wasteReduction < 0 then i1 @ [WastedMore \<bar>wasteReduction\<bar>]
                else i1);
          i3 = (if consumedCount currentMetrics > consumedCount prevMetrics
                then i2 @ [ConsumedMore (int (consumedCount currentMetrics)
                                          - int (consumedCount prevMetrics))]
                else i2)
      in \<lparr>weeklyChange = scoreImprovement,
          wasteReduction = wasteReduction,
          insights = i3,
          previousScore = sdgScore prevMetrics,
          currentScore = sdgScore currentMetrics\<rparr>)"

section \<open>analyticsService: recommendations\<close>

record Recommendation =
  action :: string
  description :: string
  impact :: int
  priority :: string
  steps :: "string list"

record Recommendations =
  recommendations :: "Recommendation list"
  potentialImprovement :: int
  estimatedNewScore :: int

text \<open>The decimal digits of an integer, as a template literal prints a rounded number.\<close>

function showNat :: "nat \<Rightarrow> string" where
  "showNat n = (if n < 10 then [char_of (48 + n)]
                else showNat (n div 10) @ [char_of (48 + n mod 10)])"
  by pat_completeness auto
termination
  by (relation "measure (\<lambda>n. n)") auto

definition showInt :: "int \<Rightarrow> string" where
  "showInt i = (if i < 0 then CHR ''-'' # showNat (nat (- i)) else showNat (nat i))"

text \<open>
  The four objects the function may push. The impacts are \<open>Math.round\<close> of a finite
  number, hence integers.
\<close>

definition wasteCandidate :: "int \<Rightarrow> Recommendation" where
  "wasteCandidate wasteReductionPotential =
     \<lparr>action = ''Focus on waste reduction'',
      description = ''Reduce waste by 25% to boost your score by ''
        @ showInt (round (of_int wasteReductionPotential * (25 / 100 :: rat))) @ ''%'',
      impact = round (of_int wasteReductionPotential * (25 / 100 :: rat)),
      priority = ''HIGH'',
      steps = [''Check fridge daily for expiring items'',
               ''Plan meals with expiring items first'',
               ''Use NOURISHBOT's meal suggestions'']\<rparr>"

text \<open>\<open>suggestions[0]\<close> inside a template literal prints \<open>undefined\<close> for an empty list.\<close>

definition nutritionCandidate :: "rat \<Rightarrow> string list \<Rightarrow> Recommendation" where
  "nutritionCandidate nutritionPotential suggs =
     \<lparr>action = ''Improve nutrition diversity'',
      description = (case suggs of [] \<Rightarrow> ''undefined'' | s # _ \<Rightarrow> s)
        @ '' to boost nutrition score by ''
        @ showInt (round (nutritionPotential * (3 / 10))) @ ''%'',
      impact = round (nutritionPotential * (3 / 10)),
      priority = ''MEDIUM'',
      steps = take 2 suggs\<rparr>"

definition vegetableCandidate :: Recommendation where
  "vegetableCandidate =
     \<lparr>action = ''Add more vegetables'',
      description = ''Boost SDG score by 10% with vegetable-based meals'',
      impact = 10,
      priority = ''HIGH'',
      steps = [''Try carrot salad'', ''Make veggie stir-fry'', ''Add veggies to every meal'']\<rparr>"

definition proteinCandidate :: Recommendation where
  "proteinCandidate =
     \<lparr>action = ''Include more proteins'',
      description = ''Protein-rich meals reduce waste by 15%'',
      impact = 15,
      priority = ''MEDIUM'',
      steps = [''Add eggs to breakfast'', ''Include beans in lunch'',
               ''Choose protein for dinner'']\<rparr>"

text \<open>
  \<open>generateActionableRecommendations(sdgMetrics, nutritionMetrics)\<close>. The four \<open>if\<close>
  blocks update the list \<open>recommendations\<close> and the number \<open>potentialImprovement\<close>; each
  block is a function on this pair. \<open>nutritionPotential > 15\<close> is false when
  \<open>nutritionScore\<close> is \<open>NaN\<close>, so no \<open>NaN\<close> reaches \<open>potentialImprovement\<close>.
\<close>

definition wasteBlock :: "SDGMetrics \<Rightarrow> Recommendation list \<times> rat \<Rightarrow> Recommendation list \<times> rat" where
  "wasteBlock sdgMetrics st =
     (let wasteReductionPotential =
            min (int (wastedCount sdgMetrics) * 10) (100 - sdgScore sdgMetrics)
      in if wasteReductionPotential > 0
         then (fst st @ [wasteCandidate wasteReductionPotential],
               snd st + of_int wasteReductionPotential * (25 / 100))
         else st)"

definition nutritionBlock :: "NutritionMetrics \<Rightarrow> Recommendation list \<times> rat \<Rightarrow> Recommendation list \<times> rat" where
  "nutritionBlock nutritionMetrics st =
     (let nutritionPotential = Num 100 - nutritionScore nutritionMetrics
      in case nutritionPotential of
           Num np \<Rightarrow>
             if np > 15
             then (fst st @ [nutritionCandidate np (suggestions nutritionMetrics)],
                   snd st + np * (15 / 100))
             else st
         | NaN \<Rightarrow> st)"

definition vegetableBlock :: "NutritionMetrics \<Rightarrow> Recommendation list \<times> rat \<Rightarrow> Recommendation list \<times> rat" where
  "vegetableBlock nutritionMetrics st =
     (if vegetables (categories nutritionMetrics) < 2
      then (fst st @ [vegetableCandidate], snd st + 10)
      else st)"

definition proteinBlock :: "NutritionMetrics \<Rightarrow> Recommendation list \<times> rat \<Rightarrow> Recommendation list \<times> rat" where
  "proteinBlock nutritionMetrics st =
     (if proteins (categories nutritionMetrics) < 2
      then (fst st @ [proteinCandidate], snd st + 5)
      else st)"

definition generateActionableRecommendations :: "SDGMetrics \<Rightarrow> NutritionMetrics \<Rightarrow> Recommendations" where
  "generateActionableRecommendations sdgMetrics nutritionMetrics =
     (let st = proteinBlock nutritionMetrics
                 (vegetableBlock nutritionMetrics
                    (nutritionBlock nutritionMetrics
                       (wasteBlock sdgMetrics ([], 0))));
          capped = min (snd st) 30
      in \<lparr>recommendations = take 3 (fst st),
          potentialImprovement = round capped,
          estimatedNewScore = min (sdgScore sdgMetrics + round capped) 100\<rparr>)"

section \<open>mealPlanningService\<close>

record Recipe =
  recipeName :: string
  ingredients :: "string list"
  time :: string
  difficulty :: string
  instructions :: string

text \<open>
  \<open>scoreRecipeMatch\<close> returns the recipe's fields (\<open>...recipe\<close>) and four more, and
  \<open>generateMealPlan\<close> adds two to that (\<open>...scoredRecipe\<close>): record extensions.
\<close>

record RecipeMatch = Recipe +
  recipe :: string
  matchScore :: number
  matchedIngredients :: "string list"
  missingIngredients :: "string list"

record Meal = RecipeMatch +
  urgency :: int
  focusItem :: string

record MealPlan =
  totalRecommendations :: nat
  mealPlan :: "Meal list"
  summary :: string

record DayPlan =
  day :: "string option"
  meal :: string
  mealTime :: string
  mealDifficulty :: string
  mealFocusItem :: string

text \<open>The entries \<open>{item, quantity}\<close> of the shopping list are pairs.\<close>

record WeeklyMealPlan =
  weeklyPlan :: "DayPlan list"
  shoppingList :: "(string \<times> nat) list"
  totalMeals :: nat

datatype error = TypeError

definition recipeDatabase :: "(string \<times> Recipe list) list" where
  "recipeDatabase =
     [(''yogurt'',
       [\<lparr>recipeName = ''Yogurt Parfait'', ingredients = [''yogurt'', ''granola'', ''berries''],
         time = ''5 min'', difficulty = ''Easy'',
         instructions = ''Layer yogurt, granola, and berries in a bowl''\<rparr>,
        \<lparr>recipeName = ''Yogurt Smoothie'',
         ingredients = [''yogurt'', ''banana'', ''berries'', ''milk''],
         time = ''10 min'', difficulty = ''Easy'',
         instructions = ''Blend all ingredients until smooth''\<rparr>,
        \<lparr>recipeName = ''Tzatziki Sauce'',
         ingredients = [''yogurt'', ''cucumber'', ''garlic'', ''dill''],
         time = ''15 min'', difficulty = ''Easy'',
         instructions = ''Mix yogurt with grated cucumber, garlic, and dill''\<rparr>]),
      (''carrots'',
       [\<lparr>recipeName = ''Carrot Stir Fry'',
         ingredients = [''carrots'', ''oil'', ''garlic'', ''soy sauce''],
         time = ''15 min'', difficulty = ''Easy'',
         instructions = ''Stir fry sliced carrots with garlic and soy sauce''\<rparr>,
        \<lparr>recipeName = ''Carrot Soup'',
         ingredients = [''carrots'', ''onion'', ''vegetable broth'', ''cream''],
         time = ''30 min'', difficulty = ''Medium'',
         instructions = ''Boil carrots and onion, blend with broth and cream''\<rparr>,
        \<lparr>recipeName = ''Raw Carrot Salad'',
         ingredients = [''carrots'', ''apple'', ''lemon juice'', ''oil''],
         time = ''10 min'', difficulty = ''Easy'',
         instructions = ''Shred carrots and apples, dress with lemon and oil''\<rparr>]),
      (''rice'',
       [\<lparr>recipeName = ''Vegetable Fried Rice'',
         ingredients = [''rice'', ''carrots'', ''peas'', ''eggs'', ''soy sauce''],
         time = ''20 min'', difficulty = ''Easy'',
         instructions = ''Stir fry cooked rice with vegetables and soy sauce''\<rparr>,
        \<lparr>recipeName = ''Rice Bowl'',
         ingredients = [''rice'', ''vegetables'', ''protein'', ''sauce''],
         time = ''25 min'', difficulty = ''Easy'',
         instructions = ''Serve rice topped with vegetables and protein''\<rparr>]),
      (''apples'',
       [\<lparr>recipeName = ''Apple Crisp'',
         ingredients = [''apples'', ''oats'', ''butter'', ''cinnamon''],
         time = ''30 min'', difficulty = ''Medium'',
         instructions = ''Bake sliced apples with oat topping''\<rparr>,
        \<lparr>recipeName = ''Apple Smoothie'',
         ingredients = [''apples'', ''yogurt'', ''honey''],
         time = ''10 min'', difficulty = ''Easy'',
         instructions = ''Blend apple with yogurt and honey''\<rparr>])]"

text \<open>
  \<open>scoreRecipeMatch(recipe, userInventory)\<close>. The meal planner reads \<open>item.name\<close> as a
  string. The quotient of the two lengths is \<open>0 / 0 = NaN\<close> for a recipe with no
  ingredient.
\<close>

definition inInventory :: "string list \<Rightarrow> string \<Rightarrow> bool" where
  "inInventory inventoryNames ing =
     list_ex (\<lambda>inv. includes_str inv (toLowerCase ing)) inventoryNames"

definition scoreRecipeMatch :: "Recipe \<Rightarrow> Item list \<Rightarrow> RecipeMatch" where
  "scoreRecipeMatch r userInventory =
     (let inventoryNames = map (\<lambda>x. toLowerCase (name x)) userInventory;
          matched = filter (\<lambda>ing. inInventory inventoryNames ing) (ingredients r);
          score = (if length (ingredients r) = 0 then NaN
                   else Num ((of_nat (length matched) / of_nat (length (ingredients r))) * 100))
      in Recipe.extend r
           (RecipeMatch.fields (recipeName r) (Math_round score) matched
              (filter (\<lambda>ing. \<not> inInventory inventoryNames ing) (ingredients r))))"

definition calculateUrgency :: "int \<Rightarrow> int" where
  "calculateUrgency d =
     (if d \<le> 1 then 100
      else if d \<le> 2 then 80
      else if d \<le> 3 then 60
      else if d \<le> 7 then 40
      else 20)"

text \<open>
  \<open>Array.prototype.sort\<close> with a comparator is stable; it is modelled as insertion sort,
  an element going before the first one the comparator does not put it after (a
  comparator result of \<open>NaN\<close> counts as 0). For a comparator that is not a consistent order
  JavaScript leaves the result to the implementation; no property below depends on the
  order.
\<close>

fun insort_cmp :: "('a \<Rightarrow> 'a \<Rightarrow> number) \<Rightarrow> 'a \<Rightarrow> 'a list \<Rightarrow> 'a list" where
  "insort_cmp c x [] = [x]"
| "insort_cmp c x (y # ys) =
     (if num_gt (c x y) (Num 0) then y # insort_cmp c x ys else x # y # ys)"

definition sort_cmp :: "('a \<Rightarrow> 'a \<Rightarrow> number) \<Rightarrow> 'a list \<Rightarrow> 'a list" where
  "sort_cmp c xs = foldr (insort_cmp c) xs []"

text \<open>
  \<open>recipeDatabase[key] || []\<close> followed by \<open>for (... of itemRecipes)\<close>. The object literal
  inherits from \<open>Object.prototype\<close>: for the two lower-case keys \<open>constructor\<close> and
  \<open>__proto__\<close> the lookup finds an inherited value that is not iterable, and the loop
  throws a \<open>TypeError\<close>.
\<close>

definition lookupRecipes :: "string \<Rightarrow> error + Recipe list" where
  "lookupRecipes key =
     (case map_of recipeDatabase key of
        Some rs \<Rightarrow> Inr rs
      | None \<Rightarrow> if key = ''constructor'' \<or> key = ''__proto__'' then Inl TypeError else Inr [])"

text \<open>The body of the inner loop: score one recipe and push it if it matches well enough.\<close>

definition pushIfMatch :: "Item list \<Rightarrow> Item \<Rightarrow> Meal list \<Rightarrow> Recipe \<Rightarrow> Meal list" where
  "pushIfMatch userInventory x recommendedMeals r =
     (let scoredRecipe = scoreRecipeMatch r userInventory in
      if num_ge (matchScore scoredRecipe) (Num 50)
      then recommendedMeals @
             [RecipeMatch.extend scoredRecipe
                (Meal.fields (calculateUrgency (daysLeft x)) (name x))]
      else recommendedMeals)"

fun collectMeals :: "Item list \<Rightarrow> Item list \<Rightarrow> Meal list \<Rightarrow> error + Meal list" where
  "collectMeals userInventory [] recommendedMeals = Inr recommendedMeals"
| "collectMeals userInventory (x # rest) recommendedMeals =
     (case lookupRecipes (toLowerCase (name x)) of
        Inl e \<Rightarrow> Inl e
      | Inr itemRecipes \<Rightarrow>
          collectMeals userInventory rest
            (foldl (pushIfMatch userInventory x) recommendedMeals itemRecipes))"

definition fitsPreferences :: "string list \<Rightarrow> Meal \<Rightarrow> bool" where
  "fitsPreferences preferences m =
     (if length preferences = 0 then True
      else
        (let vegetarian = (''Vegetarian'' \<in> set preferences);
             vegan = (''Vegan'' \<in> set preferences)
         in if vegetarian \<and> ''meat'' \<in> set (ingredients m) then False
            else if vegan \<and> (''dairy'' \<in> set (ingredients m) \<or> ''meat'' \<in> set (ingredients m))
            then False
            else True))"

definition generateMealPlan :: "Item list \<Rightarrow> string list \<Rightarrow> error + MealPlan" where
  "generateMealPlan userInventory preferences =
     (let sortedByExpiry = sort_cmp (\<lambda>a b. expiry a - expiry b) userInventory in
      case collectMeals userInventory sortedByExpiry [] of
        Inl e \<Rightarrow> Inl e
      | Inr recommendedMeals \<Rightarrow>
          (let sortedMeals =
                 sort_cmp (\<lambda>a b. if urgency a \<noteq> urgency b
                                  then Num (of_int (urgency b - urgency a))
                                  else matchScore b - matchScore a)
                   recommendedMeals;
               filteredMeals = filter (fitsPreferences preferences) sortedMeals
           in Inr \<lparr>totalRecommendations = length filteredMeals,
                   mealPlan = take 5 filteredMeals,
                   summary = ''Found '' @ showNat (length filteredMeals)
                             @ '' recipes to use your expiring items''\<rparr>))"

text \<open>
  \<open>xs.slice(0, end)\<close> for an integer \<open>end\<close>: a negative \<open>end\<close> counts from the end of the
  array.
\<close>

definition slice0 :: "'a list \<Rightarrow> int \<Rightarrow> 'a list" where
  "slice0 xs e =
     take (nat (if e < 0 then max (int (length xs) + e) 0 else min e (int (length xs)))) xs"

text \<open>
  \<open>shoppingList[ingredient]++\<close> or \<open>shoppingList[ingredient] = 1\<close>, on the entries in
  insertion order. (The ingredients come from \<^const>\<open>recipeDatabase\<close>; none of them names
  an inherited property or is an integer index.)
\<close>

fun addIngredient :: "(string \<times> nat) list \<Rightarrow> string \<Rightarrow> (string \<times> nat) list" where
  "addIngredient [] k = [(k, 1)]"
| "addIngredient ((k', n) # rest) k =
     (if k' = k then (k', n + 1) # rest else (k', n) # addIngredient rest k)"

definition weekdays :: "string list" where
  "weekdays = [''Monday'', ''Tuesday'', ''Wednesday'', ''Thursday'', ''Friday'',
               ''Saturday'', ''Sunday'']"

text \<open>\<open>weekdays[index]\<close>, which is \<open>undefined\<close> from index 7 on.\<close>

definition weekday :: "nat \<Rightarrow> string option" where
  "weekday index = (if index < length weekdays then Some (weekdays ! index) else None)"

text \<open>
  \<open>generateWeeklyMealPlan(userInventory, mealCount)\<close>; \<open>None\<close> is an omitted \<open>mealCount\<close>,
  which defaults to 7.
\<close>

definition generateWeeklyMealPlan :: "Item list \<Rightarrow> int option \<Rightarrow> error + WeeklyMealPlan" where
  "generateWeeklyMealPlan userInventory mealCount =
     (case generateMealPlan userInventory [] of
        Inl e \<Rightarrow> Inl e
      | Inr plan \<Rightarrow>
          (let selectedMeals =
                 slice0 (mealPlan plan) (case mealCount of None \<Rightarrow> 7 | Some n \<Rightarrow> n);
               shopping = foldl (\<lambda>sl m. foldl addIngredient sl (missingIngredients m)) []
                            selectedMeals
           in Inr \<lparr>weeklyPlan =
                     map (\<lambda>(m, index).
                            \<lparr>day = weekday index, meal = recipe m, mealTime = time m,
                             mealDifficulty = difficulty m, mealFocusItem = focusItem m\<rparr>)
                       (zip selectedMeals [0..<length selectedMeals]),
                   shoppingList = shopping,
                   totalMeals = length selectedMeals\<rparr>))"

section \<open>Scenario inputs\<close>

text \<open>Builders for the concrete inputs of the scenarios the properties are run on.\<close>

definition logEntry :: "string \<Rightarrow> rat \<Rightarrow> string \<Rightarrow> Item" where
  "logEntry n p s = \<lparr>name = n, item = [], price = Num p, quantity = Num 1, status = s,
                      expiry = NaN, daysLeft = 0\<rparr>"

definition inventoryItem :: "string \<Rightarrow> rat \<Rightarrow> rat \<Rightarrow> number \<Rightarrow> int \<Rightarrow> Item" where
  "inventoryItem n p q e d = \<lparr>name = n, item = [], price = Num p, quantity = Num q, status = [],
                               expiry = e, daysLeft = d\<rparr>"




definition scenarioC :: "Item list" where
  "scenarioC = [logEntry ''milk'' 1 ''wasted'', logEntry ''apple'' 1 ''consumed'',
                logEntry ''bread'' 2 ''wasted'', logEntry ''rice'' 1 ''consumed'',
                logEntry ''egg'' 1 ''wasted'', logEntry ''carrot'' 1 ''consumed'']"




text \<open>An inventory that yields six recommendations.\<close>

definition pantry :: "Item list" where
  "pantry = [inventoryItem ''Yogurt'' 1 1 (Num 100) 1, inventoryItem ''Apples'' 1 3 (Num 500) 5,
     inventoryItem ''Carrots'' 1 1 (Num 1400) 14, inventoryItem ''Olive oil'' 9 1 (Num 9000) 90,
     inventoryItem ''Garlic'' 1 1 (Num 700) 7, inventoryItem ''Berries'' 2 1 (Num 200) 2]"



text \<open>A history that is not empty and has no consumed entry.\<close>

definition wastedOnly :: "Item list" where
  "wastedOnly = [logEntry ''milk'' 1 ''wasted'']"

section \<open>Properties of the waste and risk analysis\<close>










section \<open>Malformed input\<close>




lemma toFixed2_NaN: "toFixed2 x = NaN \<longleftrightarrow> x = NaN"
  by (cases x) simp_all




section \<open>Properties of the SDG score\<close>



section \<open>Properties of the nutrition score\<close>


lemma maxPerCategory_pos: "0 < n \<Longrightarrow> 0 < nat \<lceil>of_nat n / (5::rat)\<rceil>"
  by simp

lemma categoryScore_pos:
  "0 < m \<Longrightarrow> categoryScore c m = Num (min (of_nat c / of_nat m * 100) 100)"
  by (simp add: categoryScore_def)

lemma nutritionScore_consumed:
  assumes "filter (\<lambda>x. status x = ''consumed'') history \<noteq> []"
  shows "nutritionScore (calculateNutritionScore (Some history)) =
     (let cs = categories (calculateNutritionScore (Some history));
          m = nat \<lceil>of_nat (length (filter (\<lambda>x. status x = ''consumed'') history)) / (5::rat)\<rceil>
      in Num (of_int (round
           ((min (of_nat (fruits cs) / of_nat m * 100) 100
             + min (of_nat (vegetables cs) / of_nat m * 100) 100
             + min (of_nat (proteins cs) / of_nat m * 100) 100
             + min (of_nat (grains cs) / of_nat m * 100) 100
             + min (of_nat (dairy cs) / of_nat m * 100) (100::rat)) / 5))))"
proof -
  from assms have ne: "history \<noteq> []" by auto
  from assms have "0 < length (filter (\<lambda>x. status x = ''consumed'') history)" by simp
  then have m: "0 < nat \<lceil>of_nat (length (filter (\<lambda>x. status x = ''consumed'') history)) / (5::rat)\<rceil>"
    by (rule maxPerCategory_pos)
  show ?thesis
    using ne
    by (simp add: calculateNutritionScore_def Let_def categoryScore_pos [OF m] add_divide_distrib)
qed





section \<open>Properties of the weekly insights\<close>

lemma wastedCount_filter:
  "wastedCount (calculateSDGScore (Some xs)) = length (filter (\<lambda>x. status x = ''wasted'') xs)"
  by (cases xs) (simp_all add: calculateSDGScore_def Let_def)

text \<open>
  Claim C6. For every history and current metrics, the baseline is \<open>calculateSDGScore\<close> of
  the first \<open>ceil(length / 2)\<close> entries; \<open>weeklyChange\<close> is the current score minus the
  baseline score and \<open>wasteReduction\<close> the baseline wasted count minus the current one. The
  insights are a score-trend line (improved, dropped or stable), then a waste-trend line
  exactly when \<open>wasteReduction\<close> is not 0, then a consumption line exactly when the current
  consumed count exceeds the baseline's.
\<close>

theorem generateWeeklyInsights_spec:
  "(let r = generateWeeklyInsights history currentMetrics;
        baseline = calculateSDGScore (Some (take (nat \<lceil>of_nat (length history) / (2::rat)\<rceil>) history))
    in weeklyChange r = sdgScore currentMetrics - sdgScore baseline
     \<and> wasteReduction r = int (wastedCount baseline) - int (wastedCount currentMetrics)
     \<and> previousScore r = sdgScore baseline
     \<and> currentScore r = sdgScore currentMetrics
     \<and> insights r =
         [if weeklyChange r > 0 then ScoreImproved (weeklyChange r)
          else if weeklyChange r < 0 then ScoreDropped \<bar>weeklyChange r\<bar>
          else ScoreStable]
         @ (if wasteReduction r > 0 then [WastedFewer (wasteReduction r)]
            else if wasteReduction r < 0 then [WastedMore \<bar>wasteReduction r\<bar>]
            else [])
         @ (if consumedCount currentMetrics > consumedCount baseline
            then [ConsumedMore (int (consumedCount currentMetrics) - int (consumedCount baseline))]
            else [])
     \<and> ((\<exists>n. ScoreImproved n \<in> set (insights r) \<or> ScoreDropped n \<in> set (insights r))
          \<or> ScoreStable \<in> set (insights r))
     \<and> ((\<exists>n. WastedFewer n \<in> set (insights r) \<or> WastedMore n \<in> set (insights r))
          \<longleftrightarrow> wasteReduction r \<noteq> 0)
     \<and> ((\<exists>n. ConsumedMore n \<in> set (insights r))
          \<longleftrightarrow> consumedCount currentMetrics > consumedCount baseline))"
  unfolding Let_def wastedCount_filter
  by (auto simp add: generateWeeklyInsights_def Let_def)

text \<open>Scenario C against its own earlier half: one more item wasted, two more consumed.\<close>

theorem generateWeeklyInsights_spec_witness:
  "wasteReduction (generateWeeklyInsights scenarioC (calculateSDGScore (Some scenarioC))) \<noteq> 0
   \<and> (\<exists>n. WastedFewer n \<in> set (insights (generateWeeklyInsights scenarioC (calculateSDGScore (Some scenarioC))))
         \<or> WastedMore n \<in> set (insights (generateWeeklyInsights scenarioC (calculateSDGScore (Some scenarioC)))))
   \<and> consumedCount (calculateSDGScore (Some scenarioC))
       > consumedCount (calculateSDGScore (Some (take (nat \<lceil>of_nat (length scenarioC) / (2::rat)\<rceil>) scenarioC)))
   \<and> (\<exists>n. ConsumedMore n \<in> set (insights (generateWeeklyInsights scenarioC (calculateSDGScore (Some scenarioC)))))"
proof -
  have wr: "wasteReduction (generateWeeklyInsights scenarioC (calculateSDGScore (Some scenarioC))) \<noteq> 0"
    by code_simp
  have cc: "consumedCount (calculateSDGScore (Some scenarioC))
       > consumedCount (calculateSDGScore (Some (take (nat \<lceil>of_nat (length scenarioC) / (2::rat)\<rceil>) scenarioC)))"
    by code_simp
  from generateWeeklyInsights_spec [of scenarioC "calculateSDGScore (Some scenarioC)", unfolded Let_def]
    wr cc
  show ?thesis by blast
qed

section \<open>Properties of the recommendations\<close>

lemma round_nonneg: "0 \<le> x \<Longrightarrow> 0 \<le> round (x::rat)"
  by (simp add: round_def)

lemma round_le_30: "x \<le> 30 \<Longrightarrow> round (x::rat) \<le> 30"
  using round_mono [of x 30] by simp

lemma wasteBlock_eq:
  "wasteBlock sdgMetrics (recs, p) =
     (let w = min (int (wastedCount sdgMetrics) * 10) (100 - sdgScore sdgMetrics)
      in (recs @ (if w > 0 then [wasteCandidate w] else []),
          p + (if w > 0 then of_int w * (25 / 100) else 0)))"
  by (simp add: wasteBlock_def Let_def)

lemma nutritionBlock_eq:
  "nutritionBlock nutritionMetrics (recs, p) =
     (recs @ (case nutritionScore nutritionMetrics of
                Num s \<Rightarrow> if 100 - s > 15
                          then [nutritionCandidate (100 - s) (suggestions nutritionMetrics)] else []
              | NaN \<Rightarrow> []),
      p + (case nutritionScore nutritionMetrics of
             Num s \<Rightarrow> if 100 - s > 15 then (100 - s) * (15 / 100) else 0
           | NaN \<Rightarrow> 0))"
  by (cases "nutritionScore nutritionMetrics") (simp_all add: nutritionBlock_def Let_def)

lemma vegetableBlock_eq:
  "vegetableBlock nutritionMetrics (recs, p) =
     (recs @ (if vegetables (categories nutritionMetrics) < 2 then [vegetableCandidate] else []),
      p + (if vegetables (categories nutritionMetrics) < 2 then 10 else 0))"
  by (simp add: vegetableBlock_def)

lemma proteinBlock_eq:
  "proteinBlock nutritionMetrics (recs, p) =
     (recs @ (if proteins (categories nutritionMetrics) < 2 then [proteinCandidate] else []),
      p + (if proteins (categories nutritionMetrics) < 2 then 5 else 0))"
  by (simp add: proteinBlock_def)

text \<open>
  Claim C5. For every pair of SDG metrics and nutrition metrics, the recommendations are
  the first three of the candidates generated in the order waste reduction, nutrition
  diversity, vegetables, proteins (so at most three); \<open>potentialImprovement\<close> is the
  rounded running total of the partial impacts capped at 30, and
  \<open>estimatedNewScore = min(sdgScore + potentialImprovement, 100)\<close>, which is at most 100.
\<close>

theorem generateActionableRecommendations_spec:
  "(let r = generateActionableRecommendations sdgMetrics nutritionMetrics;
        w = min (int (wastedCount sdgMetrics) * 10) (100 - sdgScore sdgMetrics);
        candidates =
          (if w > 0 then [wasteCandidate w] else [])
          @ (case nutritionScore nutritionMetrics of
               Num s \<Rightarrow> if 100 - s > 15
                         then [nutritionCandidate (100 - s) (suggestions nutritionMetrics)] else []
             | NaN \<Rightarrow> [])
          @ (if vegetables (categories nutritionMetrics) < 2 then [vegetableCandidate] else [])
          @ (if proteins (categories nutritionMetrics) < 2 then [proteinCandidate] else []);
        total =
          (if w > 0 then of_int w * (25 / 100) else 0)
          + (case nutritionScore nutritionMetrics of
               Num s \<Rightarrow> if 100 - s > 15 then (100 - s) * (15 / 100) else 0
             | NaN \<Rightarrow> 0)
          + (if vegetables (categories nutritionMetrics) < 2 then 10 else 0)
          + (if proteins (categories nutritionMetrics) < 2 then 5 else (0::rat))
    in recommendations r = take 3 candidates
     \<and> length (recommendations r) \<le> 3
     \<and> potentialImprovement r = round (min total 30)
     \<and> 0 \<le> potentialImprovement r \<and> potentialImprovement r \<le> 30
     \<and> estimatedNewScore r = min (sdgScore sdgMetrics + potentialImprovement r) 100
     \<and> estimatedNewScore r \<le> 100)"
proof -
  define w where "w = min (int (wastedCount sdgMetrics) * 10) (100 - sdgScore sdgMetrics)"
  define a :: rat where "a = (if w > 0 then of_int w * (25 / 100) else 0)"
  define b :: rat where "b = (case nutritionScore nutritionMetrics of
               Num s \<Rightarrow> if 100 - s > 15 then (100 - s) * (15 / 100) else 0
             | NaN \<Rightarrow> 0)"
  define c :: rat where "c = (if vegetables (categories nutritionMetrics) < 2 then 10 else 0)"
  define d :: rat where "d = (if proteins (categories nutritionMetrics) < 2 then 5 else 0)"
  define cands where "cands = (if w > 0 then [wasteCandidate w] else [])
          @ (case nutritionScore nutritionMetrics of
               Num s \<Rightarrow> if 100 - s > 15
                         then [nutritionCandidate (100 - s) (suggestions nutritionMetrics)] else []
             | NaN \<Rightarrow> [])
          @ (if vegetables (categories nutritionMetrics) < 2 then [vegetableCandidate] else [])
          @ (if proteins (categories nutritionMetrics) < 2 then [proteinCandidate] else [])"
  have st: "proteinBlock nutritionMetrics (vegetableBlock nutritionMetrics
              (nutritionBlock nutritionMetrics (wasteBlock sdgMetrics ([], 0))))
            = (cands, a + b + c + d)"
    unfolding wasteBlock_eq nutritionBlock_eq vegetableBlock_eq proteinBlock_eq Let_def
    by (simp only: w_def a_def b_def c_def d_def cands_def append_Nil append_assoc add_0 prod.inject
        simp_thms)
  have "0 \<le> a" by (simp add: a_def)
  moreover have "0 \<le> b" by (simp add: b_def split: number.splits)
  moreover have "0 \<le> c" by (simp add: c_def)
  moreover have "0 \<le> d" by (simp add: d_def)
  ultimately have nonneg: "0 \<le> a + b + c + d" by simp
  have lo: "0 \<le> round (min (a + b + c + d) 30)"
    using nonneg by (intro round_nonneg) simp
  have hi: "round (min (a + b + c + d) 30) \<le> 30"
    by (intro round_le_30) simp
  have r: "generateActionableRecommendations sdgMetrics nutritionMetrics =
      \<lparr>recommendations = take 3 cands,
       potentialImprovement = round (min (a + b + c + d) 30),
       estimatedNewScore = min (sdgScore sdgMetrics + round (min (a + b + c + d) 30)) 100\<rparr>"
    by (simp add: generateActionableRecommendations_def st Let_def)
  show ?thesis
    unfolding Let_def r
    unfolding w_def [symmetric] a_def [symmetric] b_def [symmetric] c_def [symmetric]
      d_def [symmetric] cands_def [symmetric]
    using lo hi by simp
qed

text \<open>The metrics of scenario C: three candidates, 28.5 rounded to 29, and 50 + 29.\<close>

theorem generateActionableRecommendations_spec_witness:
  "map action (recommendations (generateActionableRecommendations
       (calculateSDGScore (Some scenarioC)) (calculateNutritionScore (Some scenarioC))))
     = [''Focus on waste reduction'', ''Improve nutrition diversity'', ''Add more vegetables'']
   \<and> potentialImprovement (generateActionableRecommendations
       (calculateSDGScore (Some scenarioC)) (calculateNutritionScore (Some scenarioC))) = 29
   \<and> estimatedNewScore (generateActionableRecommendations
       (calculateSDGScore (Some scenarioC)) (calculateNutritionScore (Some scenarioC))) = 79"
proof -
  have m: "sdgScore (calculateSDGScore (Some scenarioC)) = 50"
    "wastedCount (calculateSDGScore (Some scenarioC)) = 3"
    by code_simp+
  have n: "nutritionScore (calculateNutritionScore (Some scenarioC)) = Num 60"
    "vegetables (categories (calculateNutritionScore (Some scenarioC))) = 1"
    "proteins (categories (calculateNutritionScore (Some scenarioC))) = 0"
    by code_simp+
  show ?thesis
    using generateActionableRecommendations_spec
      [of "calculateSDGScore (Some scenarioC)" "calculateNutritionScore (Some scenarioC)"]
    unfolding Let_def m n
    by (simp add: wasteCandidate_def nutritionCandidate_def vegetableCandidate_def round_def)
qed

section \<open>Ranges of the scores\<close>

text \<open>
  \<open>sdgScore\<close> and \<open>estimatedNewScore\<close> lie between 0 and 100 on every history, and so does
  \<open>nutritionScore\<close> on an empty or missing history and on a history with a consumed entry.
\<close>

lemma of_nat_ratio_le:
  fixes c t :: nat
  assumes "c \<le> t" "0 < t"
  shows "0 \<le> of_nat c / of_nat t * (100::rat) \<and> of_nat c / of_nat t * (100::rat) \<le> 100"
  using assms by (simp add: divide_le_eq)

lemma sdgScore_range:
  "0 \<le> sdgScore (calculateSDGScore h) \<and> sdgScore (calculateSDGScore h) \<le> 100"
proof (cases h)
  case None
  then show ?thesis by (simp add: calculateSDGScore_def)
next
  case (Some history)
  show ?thesis
  proof (cases "history = []")
    case True
    with Some show ?thesis by (simp add: calculateSDGScore_def)
  next
    case False
    let ?c = "length (filter (\<lambda>x. status x = ''consumed'') history)"
    have "?c \<le> length history" by simp
    moreover from False have "0 < length history" by simp
    ultimately have b: "0 \<le> of_nat ?c / of_nat (length history) * (100::rat)"
      "of_nat ?c / of_nat (length history) * (100::rat) \<le> 100"
      using of_nat_ratio_le by blast+
    have "0 \<le> round (of_nat ?c / of_nat (length history) * (100::rat))"
      using b(1) by (simp add: round_def)
    moreover have "round (of_nat ?c / of_nat (length history) * (100::rat)) \<le> 100"
      using round_mono [OF b(2)] by simp
    ultimately show ?thesis
      using Some False by (simp add: calculateSDGScore_def Let_def)
  qed
qed

lemma wasteBlock_nonneg: "0 \<le> snd st \<Longrightarrow> 0 \<le> snd (wasteBlock m st)"
  by (simp add: wasteBlock_def Let_def)

lemma nutritionBlock_nonneg: "0 \<le> snd st \<Longrightarrow> 0 \<le> snd (nutritionBlock n st)"
  by (simp add: nutritionBlock_def Let_def split: number.splits)

lemma vegetableBlock_nonneg: "0 \<le> snd st \<Longrightarrow> 0 \<le> snd (vegetableBlock n st)"
  by (simp add: vegetableBlock_def)

lemma proteinBlock_nonneg: "0 \<le> snd st \<Longrightarrow> 0 \<le> snd (proteinBlock n st)"
  by (simp add: proteinBlock_def)

lemma estimatedNewScore_range:
  "0 \<le> estimatedNewScore (generateActionableRecommendations (calculateSDGScore h) n)
   \<and> estimatedNewScore (generateActionableRecommendations (calculateSDGScore h) n) \<le> 100"
proof -
  let ?st = "proteinBlock n (vegetableBlock n (nutritionBlock n
               (wasteBlock (calculateSDGScore h) ([], 0))))"
  have "0 \<le> snd ?st"
    by (intro proteinBlock_nonneg vegetableBlock_nonneg nutritionBlock_nonneg wasteBlock_nonneg)
      simp
  then have "0 \<le> round (min (snd ?st) 30)"
    by (simp add: round_def)
  with sdgScore_range [of h] show ?thesis
    by (simp add: generateActionableRecommendations_def Let_def)
qed

lemma min_ratio_range:
  fixes c m :: nat
  shows "0 \<le> min (of_nat c / of_nat m * 100) (100::rat)
    \<and> min (of_nat c / of_nat m * 100) (100::rat) \<le> 100"
  by simp

lemma fifth_range:
  fixes a b c d e :: rat
  assumes "0 \<le> a \<and> a \<le> 100" "0 \<le> b \<and> b \<le> 100" "0 \<le> c \<and> c \<le> 100"
    "0 \<le> d \<and> d \<le> 100" "0 \<le> e \<and> e \<le> 100"
  shows "0 \<le> (a + b + c + d + e) / 5 \<and> (a + b + c + d + e) / 5 \<le> 100"
  using assms by simp

lemma nutritionScore_range:
  assumes "filter (\<lambda>x. status x = ''consumed'') history \<noteq> []"
  shows "\<exists>v. nutritionScore (calculateNutritionScore (Some history)) = Num (of_int v)
    \<and> 0 \<le> v \<and> v \<le> 100"
proof -
  let ?cs = "categories (calculateNutritionScore (Some history))"
  let ?m = "nat \<lceil>of_nat (length (filter (\<lambda>x. status x = ''consumed'') history)) / (5::rat)\<rceil>"
  let ?f = "\<lambda>c::nat. min (of_nat c / of_nat ?m * 100) (100::rat)"
  let ?s = "(?f (fruits ?cs) + ?f (vegetables ?cs) + ?f (proteins ?cs) + ?f (grains ?cs)
             + ?f (dairy ?cs)) / 5"
  have eq: "nutritionScore (calculateNutritionScore (Some history)) = Num (of_int (round ?s))"
    using nutritionScore_consumed [OF assms] by (simp add: Let_def)
  have "0 \<le> ?s \<and> ?s \<le> 100"
    by (intro fifth_range min_ratio_range)
  then have lo: "0 \<le> ?s" and hi: "?s \<le> 100"
    by blast+
  have "0 \<le> round ?s" using lo by (simp add: round_def)
  moreover have "round ?s \<le> 100" using round_mono [OF hi] by simp
  ultimately show ?thesis using eq by blast
qed

lemma nutritionScore_baseline:
  "nutritionScore (calculateNutritionScore None) = Num 50
   \<and> nutritionScore (calculateNutritionScore (Some [])) = Num 50"
  by (simp add: calculateNutritionScore_def)

text \<open>
  On a history that is not empty and has no consumed entry, \<open>consumedItems.length\<close> and
  \<open>maxPerCategory\<close> are 0, each category score is \<open>Math.min(0 / 0 * 100, 100) = NaN\<close>, and
  so is the sum and its rounding.
\<close>

lemma nutritionScore_NaN:
  assumes "history \<noteq> []" "filter (\<lambda>x. status x = ''consumed'') history = []"
  shows "nutritionScore (calculateNutritionScore (Some history)) = NaN"
  using assms by (simp add: calculateNutritionScore_def Let_def categoryScore_def)

text \<open>
  Claim C1. Every score the engine returns lies between 0 and 100, also for a non-empty
  history without a consumed entry. The code does not do this: for the history of one
  wasted entry \<open>calculateNutritionScore\<close> returns \<open>nutritionScore = NaN\<close>, which is no
  number between 0 and 100 (the SDG score of the same history is 0, and the estimated new
  score is 18).
\<close>

theorem calculateNutritionScore_no_consumed:
  "nutritionScore (calculateNutritionScore (Some wastedOnly)) = NaN
   \<and> \<not> (\<exists>v. nutritionScore (calculateNutritionScore (Some wastedOnly)) = Num v
            \<and> 0 \<le> v \<and> v \<le> 100)
   \<and> sdgScore (calculateSDGScore (Some wastedOnly)) = 0
   \<and> estimatedNewScore (generateActionableRecommendations
         (calculateSDGScore (Some wastedOnly)) (calculateNutritionScore (Some wastedOnly))) = 18"
proof -
  have n: "nutritionScore (calculateNutritionScore (Some wastedOnly)) = NaN"
    by code_simp
  have s: "sdgScore (calculateSDGScore (Some wastedOnly)) = 0"
    by code_simp
  have e: "estimatedNewScore (generateActionableRecommendations
         (calculateSDGScore (Some wastedOnly)) (calculateNutritionScore (Some wastedOnly))) = 18"
    by code_simp
  from n s e show ?thesis by simp
qed

section \<open>Properties of the recipe match\<close>






section \<open>Properties of the weekly meal plan\<close>

lemma lookupRecipes_Inl:
  "(\<exists>e. lookupRecipes key = Inl e) \<longleftrightarrow> (key = ''constructor'' \<or> key = ''__proto__'')"
proof -
  have "map_of recipeDatabase ''constructor'' = None" "map_of recipeDatabase ''__proto__'' = None"
    by (simp_all add: recipeDatabase_def)
  then show ?thesis
    by (auto simp add: lookupRecipes_def split: option.splits)
qed

lemma collectMeals_Inl:
  "(\<exists>e. collectMeals userInventory xs acc = Inl e) \<longleftrightarrow>
     (\<exists>x \<in> set xs. toLowerCase (name x) = ''constructor'' \<or> toLowerCase (name x) = ''__proto__'')"
proof (induction xs arbitrary: acc)
  case Nil
  show ?case by simp
next
  case (Cons x xs)
  show ?case
  proof (cases "lookupRecipes (toLowerCase (name x))")
    case (Inl e)
    then have "toLowerCase (name x) = ''constructor'' \<or> toLowerCase (name x) = ''__proto__''"
      using lookupRecipes_Inl by blast
    with Inl show ?thesis by simp
  next
    case (Inr rs)
    then have "\<not> (toLowerCase (name x) = ''constructor'' \<or> toLowerCase (name x) = ''__proto__'')"
      using lookupRecipes_Inl [of "toLowerCase (name x)"] by auto
    with Inr Cons.IH show ?thesis by simp
  qed
qed

lemma set_insort_cmp: "set (insort_cmp c x ys) = insert x (set ys)"
  by (induction ys) auto

lemma set_sort_cmp: "set (sort_cmp c xs) = set xs"
  unfolding sort_cmp_def by (induction xs) (simp_all add: set_insort_cmp)

lemma mset_insort_cmp: "mset (insort_cmp c x ys) = add_mset x (mset ys)"
  by (induction ys) simp_all

lemma mset_sort_cmp: "mset (sort_cmp c xs) = mset xs"
  unfolding sort_cmp_def by (induction xs) (simp_all add: mset_insort_cmp)

lemma generateMealPlan_Inl:
  "(\<exists>e. generateMealPlan userInventory preferences = Inl e) \<longleftrightarrow>
     (\<exists>x \<in> set userInventory.
        toLowerCase (name x) = ''constructor'' \<or> toLowerCase (name x) = ''__proto__'')"
proof -
  let ?sorted = "sort_cmp (\<lambda>a b. expiry a - expiry b) userInventory"
  have "(\<exists>e. generateMealPlan userInventory preferences = Inl e) \<longleftrightarrow>
      (\<exists>e. collectMeals userInventory ?sorted [] = Inl e)"
    by (simp add: generateMealPlan_def Let_def split: sum.splits)
  then show ?thesis
    by (simp add: collectMeals_Inl set_sort_cmp)
qed

lemma generateMealPlan_top5:
  "generateMealPlan userInventory preferences = Inr p \<Longrightarrow> length (mealPlan p) \<le> 5"
  by (auto simp add: generateMealPlan_def Let_def split: sum.splits)

lemma length_slice0: "length (slice0 xs e) \<le> length xs"
  by (simp add: slice0_def)

lemma map_day_zip:
  "map day (map (\<lambda>(m, index).
      \<lparr>day = weekday index, meal = recipe m, mealTime = time m,
       mealDifficulty = difficulty m, mealFocusItem = focusItem m\<rparr>) (zip ms [0..<length ms]))
   = map weekday [0..<length ms]"
  by (rule nth_equalityI) simp_all

lemma map_weekday: "n \<le> 7 \<Longrightarrow> map weekday [0..<n] = map Some (take n weekdays)"
  by (rule nth_equalityI) (simp_all add: weekday_def weekdays_def)

lemma generateWeeklyMealPlan_Inr:
  assumes "generateWeeklyMealPlan userInventory mealCount = Inr w"
  shows "\<exists>p. generateMealPlan userInventory [] = Inr p
      \<and> totalMeals w = length (slice0 (mealPlan p) (case mealCount of None \<Rightarrow> 7 | Some n \<Rightarrow> n))
      \<and> length (weeklyPlan w) = totalMeals w
      \<and> map day (weeklyPlan w) = map weekday [0..<totalMeals w]"
proof (cases "generateMealPlan userInventory []")
  case (Inl e)
  with assms show ?thesis by (simp add: generateWeeklyMealPlan_def)
next
  case (Inr p)
  let ?sel = "slice0 (mealPlan p) (case mealCount of None \<Rightarrow> 7 | Some n \<Rightarrow> n)"
  from assms Inr have w: "w = \<lparr>weeklyPlan =
                     map (\<lambda>(m, index).
                            \<lparr>day = weekday index, meal = recipe m, mealTime = time m,
                             mealDifficulty = difficulty m, mealFocusItem = focusItem m\<rparr>)
                       (zip ?sel [0..<length ?sel]),
                   shoppingList = foldl (\<lambda>sl m. foldl addIngredient sl (missingIngredients m)) [] ?sel,
                   totalMeals = length ?sel\<rparr>"
    by (simp add: generateWeeklyMealPlan_def Let_def)
  have d: "map day (weeklyPlan w) = map weekday [0..<length ?sel]"
    unfolding w using map_day_zip [of ?sel] by simp
  from w d Inr show ?thesis by simp
qed

text \<open>
  Claim C10. For every inventory and every \<open>mealCount\<close>, the default 7 included,
  \<open>generateWeeklyMealPlan\<close> returns at most 5 meals, with the weekday names from Monday
  on in order, because \<open>generateMealPlan\<close> cuts its list to 5 entries before the weekly
  selection; so a weekly plan never covers the 7 weekdays. (The one case without a result
  is an inventory with an item named \<open>constructor\<close> or \<open>__proto__\<close>, where the recipe lookup
  throws.)
\<close>

theorem generateWeeklyMealPlan_at_most_five:
  "(case generateWeeklyMealPlan userInventory mealCount of
      Inl e \<Rightarrow>
        (\<exists>x \<in> set userInventory.
           toLowerCase (name x) = ''constructor'' \<or> toLowerCase (name x) = ''__proto__'')
    | Inr w \<Rightarrow>
        (\<exists>p. generateMealPlan userInventory [] = Inr p
            \<and> length (mealPlan p) \<le> 5
            \<and> totalMeals w =
                length (slice0 (mealPlan p) (case mealCount of None \<Rightarrow> 7 | Some n \<Rightarrow> n))
            \<and> totalMeals w \<le> length (mealPlan p))
        \<and> totalMeals w \<le> 5
        \<and> length (weeklyPlan w) = totalMeals w
        \<and> length (weeklyPlan w) < 7
        \<and> map day (weeklyPlan w) = map Some (take (totalMeals w) weekdays)
        \<and> \<not> (\<exists>x \<in> set userInventory.
               toLowerCase (name x) = ''constructor'' \<or> toLowerCase (name x) = ''__proto__''))"
proof (cases "generateWeeklyMealPlan userInventory mealCount")
  case (Inl e)
  then have "\<exists>e. generateMealPlan userInventory [] = Inl e"
    by (auto simp add: generateWeeklyMealPlan_def Let_def split: sum.splits)
  then show ?thesis
    using Inl by (simp add: generateMealPlan_Inl)
next
  case (Inr w)
  from generateWeeklyMealPlan_Inr [OF Inr] obtain p where
    p: "generateMealPlan userInventory [] = Inr p"
    and t: "totalMeals w = length (slice0 (mealPlan p) (case mealCount of None \<Rightarrow> 7 | Some n \<Rightarrow> n))"
    and l: "length (weeklyPlan w) = totalMeals w"
    and d: "map day (weeklyPlan w) = map weekday [0..<totalMeals w]"
    by blast
  have five: "length (mealPlan p) \<le> 5"
    using p by (rule generateMealPlan_top5)
  have le: "totalMeals w \<le> length (mealPlan p)"
    unfolding t by (rule length_slice0)
  with five have t5: "totalMeals w \<le> 5" by simp
  then have d': "map day (weeklyPlan w) = map Some (take (totalMeals w) weekdays)"
    unfolding d by (intro map_weekday) simp
  have ok: "\<not> (\<exists>x \<in> set userInventory.
               toLowerCase (name x) = ''constructor'' \<or> toLowerCase (name x) = ''__proto__'')"
    using generateMealPlan_Inl [of userInventory "[]"] p by auto
  from p five t le t5 l d' ok show ?thesis
    unfolding Inr by simp
qed

text \<open>Six recommendations are cut to five, and the default count of 7 selects these five.\<close>

theorem generateWeeklyMealPlan_at_most_five_witness:
  "(case generateMealPlan pantry [] of
      Inl e \<Rightarrow> False
    | Inr p \<Rightarrow> totalRecommendations p = 6 \<and> length (mealPlan p) = 5)
   \<and> (case generateWeeklyMealPlan pantry None of
        Inl e \<Rightarrow> False
      | Inr w \<Rightarrow> totalMeals w = 5
          \<and> map day (weeklyPlan w) =
              [Some ''Monday'', Some ''Tuesday'', Some ''Wednesday'', Some ''Thursday'',
               Some ''Friday''])
   \<and> \<not> (\<exists>x \<in> set pantry.
          toLowerCase (name x) = ''constructor'' \<or> toLowerCase (name x) = ''__proto__'')"
proof -
  have a: "(case generateMealPlan pantry [] of
      Inl e \<Rightarrow> False
    | Inr p \<Rightarrow> totalRecommendations p = 6 \<and> length (mealPlan p) = 5)"
    by code_simp
  then obtain p where p: "generateMealPlan pantry [] = Inr p" and l: "length (mealPlan p) = 5"
    by (cases "generateMealPlan pantry []") simp_all
  obtain w where w: "generateWeeklyMealPlan pantry None = Inr w"
    using p by (simp add: generateWeeklyMealPlan_def Let_def)
  from generateWeeklyMealPlan_at_most_five [of pantry None] w p l
  have t: "totalMeals w = 5"
    and d: "map day (weeklyPlan w) = map Some (take (totalMeals w) weekdays)"
    and n: "\<not> (\<exists>x \<in> set pantry.
          toLowerCase (name x) = ''constructor'' \<or> toLowerCase (name x) = ''__proto__'')"
    by (simp_all add: slice0_def)
  from d t have "map day (weeklyPlan w) =
      [Some ''Monday'', Some ''Tuesday'', Some ''Wednesday'', Some ''Thursday'', Some ''Friday'']"
    by (simp add: weekdays_def)
  with a w t n show ?thesis by simp
qed

section \<open>Properties of the urgency score\<close>

text \<open>
  Claim C8. \<open>calculateUrgency\<close> is defined on every integer, with value 100, 80, 60, 40 or
  20: 100 up to 1 (zero and negative days included), 80 up to 2, 60 up to 3, 40 up to 7
  and 20 above; so it never increases as \<open>daysLeft\<close> grows.
\<close>

theorem calculateUrgency_spec:
  "calculateUrgency d \<in> {100, 80, 60, 40, 20}
   \<and> (d \<le> 1 \<longrightarrow> calculateUrgency d = 100)
   \<and> (1 < d \<and> d \<le> 2 \<longrightarrow> calculateUrgency d = 80)
   \<and> (2 < d \<and> d \<le> 3 \<longrightarrow> calculateUrgency d = 60)
   \<and> (3 < d \<and> d \<le> 7 \<longrightarrow> calculateUrgency d = 40)
   \<and> (7 < d \<longrightarrow> calculateUrgency d = 20)
   \<and> (d \<le> d' \<longrightarrow> calculateUrgency d' \<le> calculateUrgency d)"
  by (simp add: calculateUrgency_def)

theorem calculateUrgency_spec_witness:
  "calculateUrgency (-3) = 100 \<and> calculateUrgency 0 = 100 \<and> calculateUrgency 1 = 100
   \<and> calculateUrgency 2 = 80 \<and> calculateUrgency 3 = 60 \<and> calculateUrgency 7 = 40
   \<and> calculateUrgency 8 = 20 \<and> (2::int) \<le> 8 \<and> calculateUrgency 8 \<le> calculateUrgency 2"
  using calculateUrgency_spec [of "-3" 0] calculateUrgency_spec [of 0 1]
    calculateUrgency_spec [of 1 1] calculateUrgency_spec [of 2 8] calculateUrgency_spec [of 3 7]
    calculateUrgency_spec [of 7 8] calculateUrgency_spec [of 8 8]
  by simp

end
